theory Spec2Isabelle
  imports Complex_Main "HOL-Library.Product_Lexorder" "HOL-Library.Multiset"
begin

section \<open>Data model\<close>

text \<open>
  The program is a single script, \<^verbatim>\<open>app.py\<close>. Its computational part is the function
  \<^verbatim>\<open>build_dataframe\<close> (lines 215-218) and the module-level analysis (lines 227-238 and the
  label of line 251); everything else is page layout, HTTP and export.

  The script works on Python floats, IEEE doubles. A float is modelled as either \<open>NaN\<close> or
  a number; numbers are exact reals, so rounding, overflow and the infinities are not part
  of this model: a number of the model can differ from the script's in its last places.
  Every comparison with \<open>NaN\<close> is false and every arithmetic operation on \<open>NaN\<close> gives
  \<open>NaN\<close>, as in Python. The least-squares solver behind \<^verbatim>\<open>np.polyfit\<close>, whose rounding
  decides the sign of a slope near 0, is not computed here: it is an argument of the model.
\<close>

datatype pyfloat = NaN | Num real

fun fgt :: "pyfloat \<Rightarrow> pyfloat \<Rightarrow> bool" where
  "fgt (Num a) (Num b) = (b < a)"
| "fgt _ _ = False"

fun flt :: "pyfloat \<Rightarrow> pyfloat \<Rightarrow> bool" where
  "flt (Num a) (Num b) = (a < b)"
| "flt _ _ = False"

fun fadd :: "pyfloat \<Rightarrow> pyfloat \<Rightarrow> pyfloat" where
  "fadd (Num a) (Num b) = Num (a + b)"
| "fadd _ _ = NaN"

fun fmul :: "pyfloat \<Rightarrow> pyfloat \<Rightarrow> pyfloat" where
  "fmul (Num a) (Num b) = Num (a * b)"
| "fmul _ _ = NaN"

text \<open>
  A pandas \<^verbatim>\<open>Timestamp\<close> at midnight: the calendar date. Timestamps are ordered
  chronologically, which is the lexicographic order of \<open>(year, month, day)\<close>.
\<close>

datatype timestamp = Timestamp (year: nat) (month: nat) (day: nat)

definition ymd :: "timestamp \<Rightarrow> nat \<times> nat \<times> nat" where
  "ymd t = (year t, month t, day t)"

definition is_leap_year :: "nat \<Rightarrow> bool" where
  "is_leap_year y =
     (if y mod 400 = 0 then True else if y mod 100 = 0 then False else y mod 4 = 0)"

definition days_in_month :: "nat \<Rightarrow> nat \<Rightarrow> nat" where
  "days_in_month y m =
     (if m = 2 then (if is_leap_year y then 29 else 28)
      else if m = 4 \<or> m = 6 \<or> m = 9 \<or> m = 11 then 30 else 31)"

text \<open>\<^verbatim>\<open>.dt.dayofyear\<close>: the ordinal of the date within its year, 1 to 366.\<close>

definition dayofyear :: "timestamp \<Rightarrow> nat" where
  "dayofyear t = sum_list (map (days_in_month (year t)) [1..<month t]) + day t"

text \<open>
  A value of the response and a cell of the value column: Python's \<^verbatim>\<open>None\<close> (a JSON
  \<^verbatim>\<open>null\<close>) or a float. A missing observation is \<^verbatim>\<open>None\<close> or \<open>NaN\<close>.
\<close>

type_synonym cell = "pyfloat option"

text \<open>
  One row of the frame \<^verbatim>\<open>df\<close>: the column \<^verbatim>\<open>"date"\<close> and the column named by the
  weather variable. A frame is the list of its rows in index order.
\<close>

record row =
  date :: timestamp
  val :: cell

type_synonym dataframe = "row list"

text \<open>The exceptions that the modelled lines can raise.\<close>

datatype error =
    DateParseError    \<comment> \<open>\<^verbatim>\<open>pd.to_datetime\<close> on a string that is no date\<close>
  | KeyError          \<comment> \<open>\<^verbatim>\<open>sort_values("date")\<close> on a frame without that column\<close>
  | TypeError         \<comment> \<open>\<^verbatim>\<open>np.polyfit\<close>: an empty vector for x, or \<^verbatim>\<open>None + 0.0\<close>\<close>
  | LinAlgError       \<comment> \<open>\<^verbatim>\<open>numpy.linalg.lstsq\<close>: the decomposition did not converge\<close>

section \<open>The normalizer: \<^verbatim>\<open>build_dataframe\<close>\<close>

text \<open>
  The parsed JSON response is a dictionary of dictionaries; the innermost one maps a date
  string to the value of that day. Python dictionaries keep insertion order and
  \<^verbatim>\<open>data.items()\<close> walks them in that order, so the innermost dictionary is a list of pairs.
\<close>

type_synonym param_data = "(string \<times> cell) list"
type_synonym json_resp = "string \<rightharpoonup> (string \<rightharpoonup> (string \<rightharpoonup> param_data))"

text \<open>\<^verbatim>\<open>d.get(k, default)\<close>\<close>

definition dict_get :: "('k \<rightharpoonup> 'v) \<Rightarrow> 'k \<Rightarrow> 'v \<Rightarrow> 'v" where
  "dict_get d k dflt = (case d k of Some v \<Rightarrow> v | None \<Rightarrow> dflt)"

text \<open>
  The list comprehension of line 217. \<^verbatim>\<open>pd.to_datetime\<close> is a library function: it is the
  argument \<open>parse\<close>, which gives \<open>None\<close> where the library raises. The first key that does
  not parse ends the comprehension with that exception. The values are taken as they are.
\<close>

fun records :: "(string \<Rightarrow> timestamp option) \<Rightarrow> param_data \<Rightarrow> error + row list" where
  "records parse [] = Inr []"
| "records parse ((k, v) # kvs) =
     (case parse k of
        None \<Rightarrow> Inl DateParseError
      | Some d \<Rightarrow>
          (case records parse kvs of
             Inl e \<Rightarrow> Inl e
           | Inr rs \<Rightarrow> Inr (\<lparr>date = d, val = v\<rparr> # rs)))"

text \<open>
  \<^verbatim>\<open>pd.DataFrame(records)\<close> gives the value column a type. When every value is \<^verbatim>\<open>None\<close>
  the column has dtype \<^verbatim>\<open>object\<close> and holds the \<^verbatim>\<open>None\<close>s; otherwise it has dtype
  \<^verbatim>\<open>float64\<close> and each \<^verbatim>\<open>None\<close> has become \<open>NaN\<close>.
\<close>

definition infer_column :: "cell list \<Rightarrow> cell list" where
  "infer_column vs =
     (if list_all (\<lambda>v. v = None) vs then vs
      else map (\<lambda>v. case v of None \<Rightarrow> Some NaN | Some f \<Rightarrow> Some f) vs)"

definition DataFrame :: "row list \<Rightarrow> dataframe" where
  "DataFrame recs = map2 (\<lambda>r v. r\<lparr>val := v\<rparr>) recs (infer_column (map val recs))"

text \<open>
  Lines 215-218; \<open>data\<close> is line 216. \<^verbatim>\<open>pd.DataFrame([])\<close> has no columns, so \<^verbatim>\<open>sort_values("date")\<close> raises
  \<^verbatim>\<open>KeyError\<close> on it; on a frame with rows it orders them by date, ascending. The library
  does not fix the order of rows of one date; here they keep the order they came in.
\<close>

definition data :: "json_resp \<Rightarrow> string \<Rightarrow> param_data" where
  "data json_resp parameter =
     dict_get (dict_get (dict_get json_resp ''properties'' Map.empty)
       ''parameter'' Map.empty) parameter []"

definition build_dataframe ::
  "(string \<Rightarrow> timestamp option) \<Rightarrow> json_resp \<Rightarrow> string \<Rightarrow> error + dataframe" where
  "build_dataframe parse json_resp parameter =
     (case records parse (data json_resp parameter) of
        Inl e \<Rightarrow> Inl e
      | Inr recs \<Rightarrow>
          if recs = [] then Inl KeyError
          else Inr (sort_key (ymd \<circ> date) (DataFrame recs)))"

text \<open>
  The keys that the POWER service sends are eight digits, \<^verbatim>\<open>YYYYMMDD\<close>; on such a key
  \<^verbatim>\<open>pd.to_datetime\<close> gives that calendar date when it exists, within the years a
  nanosecond Timestamp can hold. \<open>to_datetime\<close> is this part of the library function, used
  to run \<open>build_dataframe\<close> on concrete responses; a string of another shape is taken as
  not a date, which is right for the ones used below.
\<close>

definition digit :: "char \<Rightarrow> nat option" where
  "digit c = (let n = (of_char c :: nat) in if 48 \<le> n \<and> n \<le> 57 then Some (n - 48) else None)"

fun number :: "nat \<Rightarrow> string \<Rightarrow> nat option" where
  "number acc [] = Some acc"
| "number acc (c # cs) =
     (case digit c of None \<Rightarrow> None | Some n \<Rightarrow> number (10 * acc + n) cs)"

definition to_datetime :: "string \<Rightarrow> timestamp option" where
  "to_datetime s =
     (if length s \<noteq> 8 then None
      else case (number 0 (take 4 s), number 0 (take 2 (drop 4 s)), number 0 (drop 6 s)) of
        (Some y, Some m, Some d) \<Rightarrow>
          if 1678 \<le> y \<and> y \<le> 2261 \<and> 1 \<le> m \<and> m \<le> 12 \<and> 1 \<le> d \<and> d \<le> days_in_month y m
          then Some (Timestamp y m d) else None
      | _ \<Rightarrow> None)"

section \<open>The analysis of one calendar day\<close>

text \<open>Lines 227-228: the rows whose day of the year is the chosen one, in frame order.\<close>

definition selected :: "dataframe \<Rightarrow> nat \<Rightarrow> dataframe" where
  "selected df yday = filter (\<lambda>r. dayofyear (date r) = yday) df"

text \<open>
  Line 230, \<^verbatim>\<open>selected[var].dropna()\<close>: the present values. \<^verbatim>\<open>dropna\<close> drops \<^verbatim>\<open>None\<close> and
  \<open>NaN\<close> alike. What is left holds neither, so it is a list of numbers.
\<close>

fun dropna :: "cell list \<Rightarrow> real list" where
  "dropna [] = []"
| "dropna (None # vs) = dropna vs"
| "dropna (Some NaN # vs) = dropna vs"
| "dropna (Some (Num x) # vs) = x # dropna vs"

definition "values" :: "dataframe \<Rightarrow> real list" where
  "values sel = dropna (map val sel)"

text \<open>
  The pandas reductions. On an empty column each of them is \<open>NaN\<close>, without raising.
  \<^verbatim>\<open>Series.std(ddof)\<close> takes the mean, sums the squared deviations from it and divides by
  \<open>count - ddof\<close>; it is \<open>NaN\<close> when \<open>count \<le> ddof\<close>.
\<close>

definition series_mean :: "real list \<Rightarrow> pyfloat" where
  "series_mean xs = (if xs = [] then NaN else Num (sum_list xs / real (length xs)))"

definition series_std :: "nat \<Rightarrow> real list \<Rightarrow> pyfloat" where
  "series_std ddof xs =
     (if length xs \<le> ddof then NaN
      else let avg = sum_list xs / real (length xs);
               sqr = sum_list (map (\<lambda>x. (avg - x)\<^sup>2) xs)
           in Num (sqrt (sqr / real (length xs - ddof))))"

fun series_max :: "real list \<Rightarrow> pyfloat" where
  "series_max [] = NaN"
| "series_max (x # xs) = Num (fold max xs x)"

fun series_min :: "real list \<Rightarrow> pyfloat" where
  "series_min [] = NaN"
| "series_min (x # xs) = Num (fold min xs x)"

text \<open>
  \<^verbatim>\<open>values > t\<close> is the column of the comparisons; the mean of a column of booleans counts
  \<^verbatim>\<open>True\<close> as 1 and \<^verbatim>\<open>False\<close> as 0.
\<close>

definition series_gt :: "real list \<Rightarrow> pyfloat \<Rightarrow> bool list" where
  "series_gt xs t = map (\<lambda>x. fgt (Num x) t) xs"

definition bool_mean :: "bool list \<Rightarrow> pyfloat" where
  "bool_mean bs = series_mean (map of_bool bs)"

text \<open>
  Lines 231-236. The numbers are those of exact arithmetic: the doubles of the script can
  differ from them in the last places, and with them the comparison of a value that lies
  on the threshold.
\<close>

definition mean_val :: "dataframe \<Rightarrow> pyfloat" where
  "mean_val sel = series_mean (values sel)"

definition std_val :: "dataframe \<Rightarrow> pyfloat" where
  "std_val sel = series_std 0 (values sel)"

definition max_val :: "dataframe \<Rightarrow> pyfloat" where
  "max_val sel = series_max (values sel)"

definition min_val :: "dataframe \<Rightarrow> pyfloat" where
  "min_val sel = series_min (values sel)"

definition prob_extreme :: "dataframe \<Rightarrow> pyfloat" where
  "prob_extreme sel =
     bool_mean (series_gt (values sel) (fadd (mean_val sel) (fmul (Num 2) (std_val sel))))"

text \<open>
  \<^verbatim>\<open>np.polyfit(x, y, 1)[0]\<close>, the slope of the least-squares line.
  \<^item> polyfit begins with \<^verbatim>\<open>y = asarray(y) + 0.0\<close>. On a column of dtype \<^verbatim>\<open>object\<close> that holds
    a \<^verbatim>\<open>None\<close> this is \<^verbatim>\<open>None + 0.0\<close>, a \<^verbatim>\<open>TypeError\<close>.
  \<^item> An empty \<open>x\<close> is refused, \<^verbatim>\<open>TypeError("expected non-empty vector for x")\<close>, and so
    are \<open>x\<close> and \<open>y\<close> of different lengths.
  \<^item> A \<open>NaN\<close> in \<open>y\<close> goes through the solver into every coefficient.
  \<^item> On numbers polyfit scales the columns of the Vandermonde matrix, calls
    \<^verbatim>\<open>numpy.linalg.lstsq\<close> and undoes the scaling. This is double arithmetic inside the
    library: it is the argument \<open>lstsq\<close>, which gives the slope that comes out or the
    exception that the library raises. Nothing is assumed of it: with years that are all
    equal the library warns (RankWarning) and still returns a slope, and on values that
    are all equal the slope it returns need not be exactly 0.
\<close>

definition polyfit_slope ::
  "(real list \<Rightarrow> real list \<Rightarrow> error + pyfloat) \<Rightarrow> real list \<Rightarrow> cell list \<Rightarrow> error + pyfloat" where
  "polyfit_slope lstsq x y =
     (if None \<in> set y then Inl TypeError
      else if x = [] \<or> length x \<noteq> length y then Inl TypeError
      else if Some NaN \<in> set y then Inr NaN
      else lstsq x (dropna y))"

text \<open>Line 237: the fit runs over the whole selection, the rows without a value included.\<close>

definition slope ::
  "(real list \<Rightarrow> real list \<Rightarrow> error + pyfloat) \<Rightarrow> dataframe \<Rightarrow> error + pyfloat" where
  "slope lstsq sel = polyfit_slope lstsq (map (\<lambda>r. real (year (date r))) sel) (map val sel)"

text \<open>Line 238.\<close>

definition trend_text :: "pyfloat \<Rightarrow> string" where
  "trend_text s =
     (if fgt s (Num 0) then ''increasing''
      else if flt s (Num 0) then ''decreasing'' else ''stable'')"

text \<open>Line 251, the label inside the insight text.\<close>

definition volatility :: "pyfloat \<Rightarrow> string" where
  "volatility p = (if fgt p (Num 0.15) then ''more volatile'' else ''generally stable'')"

text \<open>
  Lines 227-251 as one function of the solver, the frame and the chosen day of the year.
  The statements run in the order of the script: an exception of the fit ends the run
  before anything is shown.
\<close>

record report =
  rep_mean :: pyfloat
  rep_std :: pyfloat
  rep_max :: pyfloat
  rep_min :: pyfloat
  rep_prob :: pyfloat
  rep_slope :: pyfloat
  rep_trend :: string
  rep_volatility :: string

definition analysis ::
  "(real list \<Rightarrow> real list \<Rightarrow> error + pyfloat) \<Rightarrow> dataframe \<Rightarrow> nat \<Rightarrow> error + report" where
  "analysis lstsq df yday =
     (let sel = selected df yday
      in case slope lstsq sel of
           Inl e \<Rightarrow> Inl e
         | Inr s \<Rightarrow>
             Inr \<lparr>rep_mean = mean_val sel, rep_std = std_val sel,
                  rep_max = max_val sel, rep_min = min_val sel,
                  rep_prob = prob_extreme sel, rep_slope = s,
                  rep_trend = trend_text s,
                  rep_volatility = volatility (prob_extreme sel)\<rparr>)"

section \<open>The statistics as the specification words them\<close>




text \<open>The records of a day sample that hold a present value.\<close>

definition present :: "dataframe \<Rightarrow> dataframe" where
  "present sel = filter (\<lambda>r. val r \<noteq> None \<and> val r \<noteq> Some NaN) sel"

text \<open>A cell that holds a number.\<close>

definition is_number :: "cell \<Rightarrow> bool" where
  "is_number c = (case c of Some (Num x) \<Rightarrow> True | _ \<Rightarrow> False)"

section \<open>Concrete inputs\<close>

text \<open>A response that holds one variable, a row with a float and a row with \<^verbatim>\<open>None\<close>.\<close>

definition response :: "string \<Rightarrow> param_data \<Rightarrow> json_resp" where
  "response parameter kvs = [''properties'' \<mapsto> [''parameter'' \<mapsto> [parameter \<mapsto> kvs]]]"

definition mk_row :: "nat \<Rightarrow> nat \<Rightarrow> nat \<Rightarrow> pyfloat \<Rightarrow> row" where
  "mk_row y m d v = \<lparr>date = Timestamp y m d, val = Some v\<rparr>"

definition none_row :: "nat \<Rightarrow> nat \<Rightarrow> nat \<Rightarrow> row" where
  "none_row y m d = \<lparr>date = Timestamp y m d, val = None\<rparr>"

text \<open>
  The rising sample of the specification's trend test, on January 1st of the years 2000
  to 2003, a sample with one outlier, and a sample with a missing value.
\<close>

definition rising :: dataframe where
  "rising = [mk_row 2000 1 1 (Num 10), mk_row 2001 1 1 (Num 12),
             mk_row 2002 1 1 (Num 14), mk_row 2003 1 1 (Num 16)]"


definition gappy :: dataframe where
  "gappy = [mk_row 2000 1 1 (Num 10), mk_row 2001 1 1 NaN, mk_row 2002 1 1 (Num 14)]"

section \<open>Lemmas on the normalizer\<close>

lemma data_response: "data (response p kvs) p = kvs"
  by (simp add: data_def response_def dict_get_def)

lemma data_empty: "data Map.empty p = []"
  by (simp add: data_def dict_get_def)

lemma records_unparsed:
  "kv \<in> set kvs \<Longrightarrow> parse (fst kv) = None \<Longrightarrow> records parse kvs = Inl DateParseError"
proof (induction kvs)
  case Nil
  then show ?case by simp
next
  case (Cons a kvs)
  obtain k v where a: "a = (k, v)" by (cases a)
  show ?case
  proof (cases "parse k")
    case None
    then show ?thesis by (simp add: a)
  next
    case (Some d)
    with Cons a have "kv \<in> set kvs" by auto
    with Cons have "records parse kvs = Inl DateParseError" by simp
    then show ?thesis by (simp add: a Some)
  qed
qed

lemma records_parsed:
  "list_all (\<lambda>kv. parse (fst kv) \<noteq> None) kvs \<Longrightarrow>
     records parse kvs = Inr (map (\<lambda>kv. \<lparr>date = the (parse (fst kv)), val = snd kv\<rparr>) kvs)"
  by (induction kvs) (auto split: option.splits)

lemma records_vals: "records parse kvs = Inr rs \<Longrightarrow> map val rs = map snd kvs"
  by (induction kvs arbitrary: rs) (auto split: option.splits sum.splits)

lemma length_infer_column: "length (infer_column vs) = length vs"
  by (simp add: infer_column_def)

lemma length_DataFrame: "length (DataFrame recs) = length recs"
  by (simp add: DataFrame_def length_infer_column)

lemma val_DataFrame: "map val (DataFrame recs) = infer_column (map val recs)"
proof -
  have "length recs = length vs \<Longrightarrow> map val (map2 (\<lambda>r v. r\<lparr>val := v\<rparr>) recs vs) = vs" for vs
    by (induction recs vs rule: list_induct2) simp_all
  then show ?thesis by (simp add: DataFrame_def length_infer_column)
qed

lemma build_dataframe_Inr:
  "build_dataframe parse j p = Inr df \<Longrightarrow>
     \<exists>recs. records parse (data j p) = Inr recs \<and> recs \<noteq> [] \<and>
            df = sort_key (ymd \<circ> date) (DataFrame recs)"
  by (auto simp: build_dataframe_def split: sum.splits if_splits)

lemma build_dataframe_length:
  assumes "build_dataframe parse j p = Inr df"
  shows "length df = length (data j p)"
proof -
  from assms obtain recs where recs: "records parse (data j p) = Inr recs"
    and df: "df = sort_key (ymd \<circ> date) (DataFrame recs)"
    using build_dataframe_Inr by blast
  have "length recs = length (map val recs)" by simp
  also have "\<dots> = length (data j p)" using records_vals [OF recs] by simp
  finally show ?thesis by (simp add: df length_DataFrame)
qed

lemma to_datetime_2000: "to_datetime ''20000101'' = Some (Timestamp 2000 1 1)"
  by (simp add: to_datetime_def digit_def days_in_month_def)

lemma to_datetime_2001: "to_datetime ''20010101'' = Some (Timestamp 2001 1 1)"
  by (simp add: to_datetime_def digit_def days_in_month_def)

lemma to_datetime_word: "to_datetime ''abc'' = None"
  by (simp add: to_datetime_def)

section \<open>Lemmas on the analysis\<close>

lemma slope_empty: "slope lstsq [] = Inl TypeError"
  by (simp add: slope_def polyfit_slope_def)

lemma slope_none: "None \<in> set (map val sel) \<Longrightarrow> slope lstsq sel = Inl TypeError"
  by (simp add: slope_def polyfit_slope_def)

lemma slope_nan:
  "Some NaN \<in> set (map val sel) \<Longrightarrow> None \<notin> set (map val sel) \<Longrightarrow> slope lstsq sel = Inr NaN"
  by (auto simp: slope_def polyfit_slope_def)

lemma is_number_cells:
  "list_all is_number cs \<Longrightarrow> None \<notin> set cs \<and> Some NaN \<notin> set cs"
  by (induction cs) (auto simp: is_number_def)

lemma slope_numbers:
  assumes "sel \<noteq> []" and "list_all is_number (map val sel)"
  shows "slope lstsq sel = lstsq (map (\<lambda>r. real (year (date r))) sel) (values sel)"
  using assms is_number_cells [OF assms(2)]
  by (simp add: slope_def polyfit_slope_def values_def)

lemma trend_text_cases: "trend_text s \<in> {''increasing'', ''decreasing'', ''stable''}"
  by (simp add: trend_text_def)

lemma analysis_empty: "selected df yday = [] \<Longrightarrow> analysis lstsq df yday = Inl TypeError"
  by (simp add: analysis_def slope_empty)

lemma analysis_returns:
  "slope lstsq (selected df yday) = Inr s \<Longrightarrow>
   analysis lstsq df yday =
     Inr \<lparr>rep_mean = mean_val (selected df yday), rep_std = std_val (selected df yday),
          rep_max = max_val (selected df yday), rep_min = min_val (selected df yday),
          rep_prob = prob_extreme (selected df yday), rep_slope = s,
          rep_trend = trend_text s,
          rep_volatility = volatility (prob_extreme (selected df yday))\<rparr>"
  by (simp add: analysis_def Let_def)

lemma analysis_raises:
  "slope lstsq (selected df yday) = Inl e \<Longrightarrow> analysis lstsq df yday = Inl e"
  by (simp add: analysis_def Let_def)

lemma analysis_trend:
  assumes "analysis lstsq df yday = Inr r"
  shows "rep_trend r \<in> {''increasing'', ''decreasing'', ''stable''}"
proof (cases "slope lstsq (selected df yday)")
  case (Inl e)
  from analysis_raises [OF this] assms show ?thesis by simp
next
  case (Inr s)
  from analysis_returns [OF this] assms have "rep_trend r = trend_text s" by auto
  then show ?thesis using trend_text_cases [of s] by simp
qed

lemma january_first: "dayofyear (date (mk_row y (Suc 0) (Suc 0) v)) = Suc 0"
  by (simp add: mk_row_def dayofyear_def)

lemma january_first_none: "dayofyear (date (none_row y (Suc 0) (Suc 0))) = Suc 0"
  by (simp add: none_row_def dayofyear_def)

lemma values_present: "values (present sel) = values sel"
proof (induction sel)
  case Nil
  then show ?case by (simp add: present_def values_def)
next
  case (Cons r sel)
  show ?case
  proof (cases "val r")
    case None
    with Cons show ?thesis by (simp add: present_def values_def)
  next
    case (Some f)
    with Cons show ?thesis by (cases f) (simp_all add: present_def values_def)
  qed
qed









section \<open>The claims\<close>

text \<open>
  C1, as the code has it. When no record of the frame falls on the chosen day of the year,
  the selection is empty and the mean, the standard deviation, the maximum, the minimum and
  the exceedance frequency are all \<open>NaN\<close>, the undefined value. The script has no result
  for "no data" or "insufficient data": the least-squares fit is called on the empty
  selection and raises, so the analysis ends with \<open>TypeError\<close> before any trend or insight.
\<close>

theorem no_matching_day:
  assumes "\<forall>r \<in> set df. dayofyear (date r) \<noteq> yday"
  shows "selected df yday = [] \<and>
         mean_val (selected df yday) = NaN \<and> std_val (selected df yday) = NaN \<and>
         max_val (selected df yday) = NaN \<and> min_val (selected df yday) = NaN \<and>
         prob_extreme (selected df yday) = NaN \<and>
         analysis lstsq df yday = Inl TypeError"
proof -
  from assms have e: "selected df yday = []"
    by (simp add: selected_def)
  have "values [] = []" by (simp add: values_def)
  then show ?thesis
    by (simp add: e analysis_empty mean_val_def std_val_def max_val_def min_val_def
        prob_extreme_def series_mean_def series_std_def bool_mean_def series_gt_def)
qed

text \<open>The rising sample has no record on day 2; the solver is never reached.\<close>

theorem no_matching_day_witness:
  "\<forall>lstsq. selected rising 2 = [] \<and> mean_val (selected rising 2) = NaN \<and>
     prob_extreme (selected rising 2) = NaN \<and> analysis lstsq rising 2 = Inl TypeError"
proof
  fix lstsq :: "real list \<Rightarrow> real list \<Rightarrow> error + pyfloat"
  have "\<forall>r \<in> set rising. dayofyear (date r) \<noteq> 2"
    by (simp add: rising_def january_first)
  from no_matching_day [OF this, of lstsq] show
    "selected rising 2 = [] \<and> mean_val (selected rising 2) = NaN \<and>
     prob_extreme (selected rising 2) = NaN \<and> analysis lstsq rising 2 = Inl TypeError"
    by blast
qed

text \<open>
  The claim fails where it says that the analysis never raises: a frame with one record
  on January 1st, asked for day 2.
\<close>

theorem no_matching_day_counterexample:
  "\<forall>lstsq. selected [mk_row 2000 1 1 (Num 5)] 2 = [] \<and>
     analysis lstsq [mk_row 2000 1 1 (Num 5)] 2 = Inl TypeError"
  by (simp add: selected_def january_first analysis_def slope_empty)

text \<open>
  C2, as the code has it. The trend estimator has no guard on the number of years and no
  "insufficient data" result; \<^verbatim>\<open>np.polyfit\<close> is called on every day sample. On an empty sample
  it raises. On a sample that is not empty and holds numbers only, the slope is what the
  library's solver gives on the years and the values, however many the years are. And
  whenever the analysis returns, the direction is one of increasing, decreasing and stable.
\<close>

theorem fit_without_guard:
  "(selected df yday = [] \<longrightarrow> analysis lstsq df yday = Inl TypeError) \<and>
   (selected df yday \<noteq> [] \<and> list_all is_number (map val (selected df yday)) \<longrightarrow>
      slope lstsq (selected df yday) =
        lstsq (map (\<lambda>r. real (year (date r))) (selected df yday)) (values (selected df yday))) \<and>
   (\<forall>r. analysis lstsq df yday = Inr r \<longrightarrow>
      rep_trend r \<in> {''increasing'', ''decreasing'', ''stable''})"
proof (intro conjI impI allI)
  assume "selected df yday = []"
  then show "analysis lstsq df yday = Inl TypeError" by (rule analysis_empty)
next
  assume "selected df yday \<noteq> [] \<and> list_all is_number (map val (selected df yday))"
  then show "slope lstsq (selected df yday) =
      lstsq (map (\<lambda>r. real (year (date r))) (selected df yday)) (values (selected df yday))"
    by (simp add: slope_numbers)
next
  fix r assume "analysis lstsq df yday = Inr r"
  then show "rep_trend r \<in> {''increasing'', ''decreasing'', ''stable''}"
    by (rule analysis_trend)
qed

text \<open>
  One record, of the year 2010: the solver is called on that single year. And a sample on
  which the analysis returns.
\<close>

theorem fit_without_guard_witness:
  "\<forall>lstsq. selected [mk_row 2010 1 1 (Num 3)] 1 = [mk_row 2010 1 1 (Num 3)] \<and>
     slope lstsq (selected [mk_row 2010 1 1 (Num 3)] 1) = lstsq [2010] [3] \<and>
     analysis lstsq gappy 2 = Inl TypeError \<and>
     (\<exists>r. analysis lstsq gappy 1 = Inr r \<and>
          rep_trend r \<in> {''increasing'', ''decreasing'', ''stable''})"
proof
  fix lstsq :: "real list \<Rightarrow> real list \<Rightarrow> error + pyfloat"
  let ?df = "[mk_row 2010 1 1 (Num 3)]"
  have s: "selected ?df 1 = ?df"
    by (simp add: selected_def january_first)
  have "list_all is_number (map val (selected ?df 1))"
    unfolding s by (simp add: mk_row_def is_number_def)
  with fit_without_guard [of ?df 1 lstsq] s
  have "slope lstsq (selected ?df 1) =
      lstsq (map (\<lambda>r. real (year (date r))) (selected ?df 1)) (values (selected ?df 1))"
    by simp
  then have a: "slope lstsq (selected ?df 1) = lstsq [2010] [3]"
    unfolding s by (simp add: mk_row_def values_def)
  have "selected gappy 2 = []"
    by (simp add: selected_def gappy_def january_first)
  with fit_without_guard [of gappy 2 lstsq]
  have b: "analysis lstsq gappy 2 = Inl TypeError" by blast
  have g: "selected gappy 1 = gappy"
    by (simp add: selected_def gappy_def january_first)
  have "slope lstsq (selected gappy 1) = Inr NaN"
    unfolding g by (rule slope_nan) (simp_all add: gappy_def mk_row_def)
  from analysis_returns [OF this] obtain r where r: "analysis lstsq gappy 1 = Inr r"
    by blast
  with fit_without_guard [of gappy 1 lstsq]
  have "rep_trend r \<in> {''increasing'', ''decreasing'', ''stable''}" by blast
  with r a b s show
    "selected ?df 1 = ?df \<and> slope lstsq (selected ?df 1) = lstsq [2010] [3] \<and>
     analysis lstsq gappy 2 = Inl TypeError \<and>
     (\<exists>r. analysis lstsq gappy 1 = Inr r \<and>
          rep_trend r \<in> {''increasing'', ''decreasing'', ''stable''})"
    by blast
qed

text \<open>
  The claim fails on a sample whose present values are of a single year, 1999, next to a
  record of 2000 without a value: the fit is attempted and the direction reported is
  "stable", whatever the solver.
\<close>

theorem single_year_counterexample:
  "\<forall>lstsq.
     map (year \<circ> date) (present (selected [mk_row 1999 1 1 (Num 7), mk_row 2000 1 1 NaN] 1))
       = [1999] \<and>
     analysis lstsq [mk_row 1999 1 1 (Num 7), mk_row 2000 1 1 NaN] 1 =
       Inr \<lparr>rep_mean = Num 7, rep_std = Num 0, rep_max = Num 7, rep_min = Num 7,
            rep_prob = Num 0, rep_slope = NaN, rep_trend = ''stable'',
            rep_volatility = ''generally stable''\<rparr>"
  by (simp add: analysis_def selected_def present_def mk_row_def dayofyear_def slope_def
      polyfit_slope_def mean_val_def std_val_def max_val_def min_val_def prob_extreme_def
      values_def series_mean_def series_std_def bool_mean_def series_gt_def trend_text_def
      volatility_def)

text \<open>
  C3, as the code has it. A date key that does not parse is not skipped: the exception of
  the parser ends \<open>build_dataframe\<close>, and no Series is returned. The values are not parsed
  at all; when the function returns, the Series has one record for every pair of the
  mapping, so that no record is ever dropped.
\<close>

theorem unparsed_key_raises:
  "((\<exists>kv \<in> set (data j p). parse (fst kv) = None) \<longrightarrow>
      build_dataframe parse j p = Inl DateParseError) \<and>
   (\<forall>df. build_dataframe parse j p = Inr df \<longrightarrow> length df = length (data j p))"
proof (intro conjI impI allI)
  assume "\<exists>kv \<in> set (data j p). parse (fst kv) = None"
  then have "records parse (data j p) = Inl DateParseError"
    using records_unparsed by blast
  then show "build_dataframe parse j p = Inl DateParseError"
    by (simp add: build_dataframe_def)
next
  fix df assume "build_dataframe parse j p = Inr df"
  then show "length df = length (data j p)" by (rule build_dataframe_length)
qed

theorem unparsed_key_raises_witness:
  "to_datetime ''abc'' = None \<and>
   build_dataframe to_datetime
     (response ''WS2M'' [(''abc'', Some (Num 1)), (''20010101'', Some (Num 2))]) ''WS2M''
     = Inl DateParseError"
proof -
  let ?j = "response ''WS2M'' [(''abc'', Some (Num 1)), (''20010101'', Some (Num 2))]"
  have "\<exists>kv \<in> set (data ?j ''WS2M''). to_datetime (fst kv) = None"
    by (simp add: data_response to_datetime_word)
  with unparsed_key_raises [of ?j "''WS2M''" to_datetime]
  show ?thesis using to_datetime_word by blast
qed

text \<open>
  The claim fails on a mapping of two pairs, the second with a key that is no date: the
  result is the exception, not the Series of the first record.
\<close>

theorem unparsed_key_counterexample:
  "build_dataframe to_datetime
     (response ''T2M'' [(''20000101'', Some (Num 5)), (''abc'', Some (Num 1))]) ''T2M''
     = Inl DateParseError"
  by (simp add: build_dataframe_def data_response to_datetime_2000 to_datetime_word)

text \<open>
  C4. On an empty input mapping \<open>build_dataframe\<close> raises \<open>KeyError\<close>: the frame built from
  no record has no column \<open>date\<close> to sort by. This holds for the response without the key
  \<^verbatim>\<open>"properties"\<close>, where the defaults \<^verbatim>\<open>{}\<close> of line 216 give the empty mapping, and for
  the response that holds an empty mapping for the variable.
\<close>

theorem empty_mapping_raises:
  "build_dataframe parse Map.empty p = Inl KeyError \<and>
   build_dataframe parse (response p []) p = Inl KeyError"
  by (simp add: build_dataframe_def data_empty data_response)



text \<open>
  C7. Whatever the order of the pairs in the input mapping, the Series that
  \<open>build_dataframe\<close> returns is in ascending order of date and holds the values of the
  mapping, as the column type has them, each as often as the mapping does. It does return
  when the mapping is not empty and every key parses.
\<close>

theorem normalizer_sorted:
  "(data j p \<noteq> [] \<and> list_all (\<lambda>kv. parse (fst kv) \<noteq> None) (data j p)
      \<longrightarrow> (\<exists>df. build_dataframe parse j p = Inr df)) \<and>
   (\<forall>df. build_dataframe parse j p = Inr df \<longrightarrow>
      sorted (map ymd (map date df)) \<and>
      mset (map val df) = mset (infer_column (map snd (data j p))))"
proof (intro conjI impI allI)
  assume "data j p \<noteq> [] \<and> list_all (\<lambda>kv. parse (fst kv) \<noteq> None) (data j p)"
  then show "\<exists>df. build_dataframe parse j p = Inr df"
    by (simp add: build_dataframe_def records_parsed)
next
  fix df assume r: "build_dataframe parse j p = Inr df"
  then obtain recs where recs: "records parse (data j p) = Inr recs"
    and df: "df = sort_key (ymd \<circ> date) (DataFrame recs)"
    using build_dataframe_Inr by blast
  have "sorted (map (ymd \<circ> date) (sort_key (ymd \<circ> date) (DataFrame recs)))"
    by (rule sorted_sort_key)
  then show "sorted (map ymd (map date df))" by (simp add: df)
  have "mset (map val df) = mset (map val (DataFrame recs))"
    by (simp add: df)
  then show "mset (map val df) = mset (infer_column (map snd (data j p)))"
    using records_vals [OF recs] by (simp add: val_DataFrame)
qed

text \<open>
  A mapping that arrives with the later date first; the \<^verbatim>\<open>null\<close> of the earlier date is
  \<open>NaN\<close> in the column of floats.
\<close>

theorem normalizer_sorted_witness:
  "build_dataframe to_datetime
     (response ''T2M'' [(''20010101'', Some (Num 3)), (''20000101'', None)]) ''T2M''
     = Inr [mk_row 2000 1 1 NaN, mk_row 2001 1 1 (Num 3)] \<and>
   sorted (map ymd (map date [mk_row 2000 1 1 NaN, mk_row 2001 1 1 (Num 3)]))"
proof -
  let ?j = "response ''T2M'' [(''20010101'', Some (Num 3)), (''20000101'', None)]"
  have b: "build_dataframe to_datetime ?j ''T2M''
     = Inr [mk_row 2000 1 1 NaN, mk_row 2001 1 1 (Num 3)]"
    by (simp add: build_dataframe_def data_response to_datetime_2000 to_datetime_2001
        DataFrame_def infer_column_def mk_row_def ymd_def)
  with normalizer_sorted [of ?j "''T2M''" to_datetime]
  show ?thesis by blast
qed



text \<open>
  C9. For a defined exceedance frequency \<open>p\<close> the label is "more volatile" exactly when
  \<open>p > 0.15\<close> and "generally stable" exactly when \<open>p \<le> 0.15\<close>; at 0.15 it is
  "generally stable".
\<close>

theorem volatility_threshold:
  "(volatility (Num p) = ''more volatile'' \<longleftrightarrow> 0.15 < p) \<and>
   (volatility (Num p) = ''generally stable'' \<longleftrightarrow> p \<le> 0.15) \<and>
   volatility (Num 0.15) = ''generally stable''"
  by (auto simp: volatility_def)

text \<open>
  C10, as the code has it. The slope is fitted over every record of the day sample, while
  the mean, the standard deviation, the minimum, the maximum and the exceedance frequency
  are those of the records with a present value. So for a day sample of a column of floats
  with a \<open>NaN\<close> the analysis returns, the slope is \<open>NaN\<close> and the direction is "stable". For a
  day sample with a \<^verbatim>\<open>None\<close>, which is how a missing value stands in the column when every
  value of the response is \<^verbatim>\<open>null\<close>, the fit raises \<open>TypeError\<close>.
\<close>

theorem missing_value_trend:
  "mean_val (selected df yday) = mean_val (present (selected df yday)) \<and>
   std_val (selected df yday) = std_val (present (selected df yday)) \<and>
   min_val (selected df yday) = min_val (present (selected df yday)) \<and>
   max_val (selected df yday) = max_val (present (selected df yday)) \<and>
   prob_extreme (selected df yday) = prob_extreme (present (selected df yday)) \<and>
   (Some NaN \<in> set (map val (selected df yday)) \<and> None \<notin> set (map val (selected df yday))
      \<longrightarrow> (\<exists>r. analysis lstsq df yday = Inr r \<and> rep_slope r = NaN \<and>
               rep_trend r = ''stable'' \<and>
               rep_mean r = mean_val (present (selected df yday)))) \<and>
   (None \<in> set (map val (selected df yday)) \<longrightarrow> analysis lstsq df yday = Inl TypeError)"
proof (intro conjI impI)
  assume "Some NaN \<in> set (map val (selected df yday)) \<and>
          None \<notin> set (map val (selected df yday))"
  then have "slope lstsq (selected df yday) = Inr NaN"
    by (simp add: slope_nan)
  from analysis_returns [OF this] show
    "\<exists>r. analysis lstsq df yday = Inr r \<and> rep_slope r = NaN \<and> rep_trend r = ''stable'' \<and>
         rep_mean r = mean_val (present (selected df yday))"
    by (simp add: trend_text_def mean_val_def values_present)
next
  assume "None \<in> set (map val (selected df yday))"
  then have "slope lstsq (selected df yday) = Inl TypeError"
    by (rule slope_none)
  then show "analysis lstsq df yday = Inl TypeError"
    by (rule analysis_raises)
qed (simp_all add: mean_val_def std_val_def min_val_def max_val_def prob_extreme_def
      values_present)

text \<open>
  The values 10, \<open>NaN\<close>, 14 of the years 2000 to 2002: the direction is "stable" and the
  mean is 12, although the fit over the two present values would call the solver on the
  years 2000 and 2002.
\<close>

theorem missing_value_trend_witness:
  "\<forall>lstsq. Some NaN \<in> set (map val (selected gappy 1)) \<and>
     None \<notin> set (map val (selected gappy 1)) \<and>
     (\<exists>r. analysis lstsq gappy 1 = Inr r \<and> rep_slope r = NaN \<and> rep_trend r = ''stable'' \<and>
          rep_mean r = Num 12) \<and>
     slope lstsq (present (selected gappy 1)) = lstsq [2000, 2002] [10, 14] \<and>
     analysis lstsq [none_row 2000 1 1] 1 = Inl TypeError"
proof
  fix lstsq :: "real list \<Rightarrow> real list \<Rightarrow> error + pyfloat"
  have sel: "selected gappy 1 = gappy"
    by (simp add: selected_def gappy_def january_first)
  have n: "Some NaN \<in> set (map val (selected gappy 1)) \<and>
           None \<notin> set (map val (selected gappy 1))"
    unfolding sel by (simp add: gappy_def mk_row_def)
  have p: "present gappy = [mk_row 2000 1 1 (Num 10), mk_row 2002 1 1 (Num 14)]"
    by (simp add: present_def gappy_def mk_row_def)
  have m: "mean_val (present gappy) = Num 12"
    by (simp add: p mean_val_def values_def series_mean_def mk_row_def)
  have s: "slope lstsq (present gappy) = lstsq [2000, 2002] [10, 14]"
    by (simp add: p slope_def polyfit_slope_def mk_row_def)
  note t = missing_value_trend [of gappy 1 lstsq]
  from t n obtain r where
    "analysis lstsq gappy 1 = Inr r" "rep_slope r = NaN" "rep_trend r = ''stable''"
    "rep_mean r = mean_val (present (selected gappy 1))"
    by blast
  then have a: "\<exists>r. analysis lstsq gappy 1 = Inr r \<and> rep_slope r = NaN \<and>
        rep_trend r = ''stable'' \<and> rep_mean r = Num 12"
    unfolding sel by (simp add: m)
  have b: "slope lstsq (present (selected gappy 1)) = lstsq [2000, 2002] [10, 14]"
    unfolding sel by (rule s)
  have "selected [none_row 2000 1 1] 1 = [none_row 2000 1 1]"
    by (simp add: selected_def january_first_none)
  then have "None \<in> set (map val (selected [none_row 2000 1 1] 1))"
    by (simp add: none_row_def)
  with missing_value_trend [of "[none_row 2000 1 1]" 1 lstsq]
  have c: "analysis lstsq [none_row 2000 1 1] 1 = Inl TypeError" by blast
  from n a b c show
    "Some NaN \<in> set (map val (selected gappy 1)) \<and>
     None \<notin> set (map val (selected gappy 1)) \<and>
     (\<exists>r. analysis lstsq gappy 1 = Inr r \<and> rep_slope r = NaN \<and> rep_trend r = ''stable'' \<and>
          rep_mean r = Num 12) \<and>
     slope lstsq (present (selected gappy 1)) = lstsq [2000, 2002] [10, 14] \<and>
     analysis lstsq [none_row 2000 1 1] 1 = Inl TypeError"
    by blast
qed

text \<open>
  The claim fails on a response whose values are all \<^verbatim>\<open>null\<close>: the day sample holds missing
  values, and the analysis ends with the \<open>TypeError\<close> of the fit instead of a slope \<open>NaN\<close>
  and the direction "stable".
\<close>

theorem all_null_counterexample:
  "build_dataframe to_datetime
     (response ''T2M'' [(''20000101'', None), (''20010101'', None)]) ''T2M''
     = Inr [none_row 2000 1 1, none_row 2001 1 1] \<and>
   (\<forall>lstsq. analysis lstsq [none_row 2000 1 1, none_row 2001 1 1] 1 = Inl TypeError)"
  by (simp add: build_dataframe_def data_response to_datetime_2000 to_datetime_2001
      DataFrame_def infer_column_def none_row_def ymd_def analysis_def selected_def
      dayofyear_def slope_def polyfit_slope_def)

end
